theory Spec2Isabelle
  imports Main "HOL-Library.Word"
begin

section \<open>Strings\<close>

text \<open>
  A TypeScript string is a sequence of UTF-16 code units. The literals of the pages are
  ASCII except for the two emoji that end the submission messages; \<open>js\<close> turns an ASCII
  literal into its code units.
\<close>

type_synonym js_string = "16 word list"

definition js :: "string \<Rightarrow> js_string" where
  "js cs = map of_char cs"

text \<open>
  \<open>String.prototype.trim\<close> removes the white space and line terminators of ECMAScript
  from both ends; \<open>!inputMessage.trim()\<close> holds when nothing is left.
\<close>

definition isWhiteSpace :: "16 word \<Rightarrow> bool" where
  "isWhiteSpace c \<longleftrightarrow>
     c \<in> set [0x09, 0x0A, 0x0B, 0x0C, 0x0D, 0x20, 0xA0, 0x1680,
              0x2028, 0x2029, 0x202F, 0x205F, 0x3000, 0xFEFF]
     \<or> (0x2000 \<le> c \<and> c \<le> 0x200A)"

definition trim :: "js_string \<Rightarrow> js_string" where
  "trim s = rev (dropWhile isWhiteSpace (rev (dropWhile isWhiteSpace s)))"

definition blank :: "js_string \<Rightarrow> bool" where
  "blank s \<longleftrightarrow> trim s = []"

section \<open>The create page: data\<close>

text \<open>The interface \<open>Trip\<close> of \<open>client/app/create/page.tsx\<close>.\<close>

record Trip =
  destination :: js_string
  budget :: js_string
  startDate :: js_string
  endDate :: js_string
  travelers :: js_string
  accessibility :: js_string
  interests :: js_string
  "notes" :: js_string

text \<open>
  The values of \<open>field\<close> in \<open>steps\<close> are the eight property names of \<open>Trip\<close>;
  \<open>K_destination\<close> stands for the key \<open>"destination"\<close>, and so on.
\<close>

datatype trip_key =
  K_destination | K_budget | K_startDate | K_endDate
  | K_travelers | K_accessibility | K_interests | K_notes

text \<open>The object spread \<open>{ ...prev, [k]: v }\<close> and the property read \<open>t[k]\<close>.\<close>

fun set_key :: "trip_key \<Rightarrow> js_string \<Rightarrow> Trip \<Rightarrow> Trip" where
  "set_key K_destination v t = t\<lparr>destination := v\<rparr>"
| "set_key K_budget v t = t\<lparr>budget := v\<rparr>"
| "set_key K_startDate v t = t\<lparr>startDate := v\<rparr>"
| "set_key K_endDate v t = t\<lparr>endDate := v\<rparr>"
| "set_key K_travelers v t = t\<lparr>travelers := v\<rparr>"
| "set_key K_accessibility v t = t\<lparr>accessibility := v\<rparr>"
| "set_key K_interests v t = t\<lparr>interests := v\<rparr>"
| "set_key K_notes v t = t\<lparr>notes := v\<rparr>"

fun get_key :: "trip_key \<Rightarrow> Trip \<Rightarrow> js_string" where
  "get_key K_destination t = destination t"
| "get_key K_budget t = budget t"
| "get_key K_startDate t = startDate t"
| "get_key K_endDate t = endDate t"
| "get_key K_travelers t = travelers t"
| "get_key K_accessibility t = accessibility t"
| "get_key K_interests t = interests t"
| "get_key K_notes t = notes t"

record step =
  field :: trip_key
  prompt :: js_string

definition steps :: "step list" where
  "steps =
    [\<lparr>field = K_destination, prompt = js ''Where would you like to go?''\<rparr>,
     \<lparr>field = K_budget, prompt = js ''What's your budget for this trip?''\<rparr>,
     \<lparr>field = K_startDate, prompt = js ''When will the trip start? (YYYY-MM-DD)''\<rparr>,
     \<lparr>field = K_endDate, prompt = js ''When will the trip end? (YYYY-MM-DD)''\<rparr>,
     \<lparr>field = K_travelers, prompt = js ''How many people are traveling?''\<rparr>,
     \<lparr>field = K_accessibility, prompt = js ''Do you have any accessibility needs?''\<rparr>,
     \<lparr>field = K_interests,
      prompt = js ''What type of activities or experiences interest you?''\<rparr>,
     \<lparr>field = K_notes, prompt = js ''Any additional notes or preferences?''\<rparr>]"

text \<open>
  A chat message. \<open>timestamp\<close> is the reading of \<open>new Date()\<close>, in milliseconds; every
  operation that builds a message takes the reading as its first argument.
\<close>

datatype sender = Bot | User

record message =
  id_msg :: nat
  type_msg :: sender
  content :: js_string
  timestamp :: nat

definition emptyTrip :: Trip where
  "emptyTrip = \<lparr>destination = [], budget = [], startDate = [], endDate = [],
     travelers = [], accessibility = [], interests = [], notes = []\<rparr>"

text \<open>The state of the component: its \<open>useState\<close> cells and the ref.\<close>

record page_state =
  stepIndex :: nat
  tripData :: Trip
  currentTrips :: "Trip list"
  messages :: "message list"
  inputMessage :: js_string
  isTyping :: bool
  isSubmitting :: bool
  hasShownInitialPromptRef :: bool

definition welcomeMessage :: js_string where
  "welcomeMessage =
     js ''Hello! I'm your TripPilot AI assistant. I'm here to help you plan the perfect trip.''"

definition initialState :: "nat \<Rightarrow> page_state" where
  "initialState now =
    \<lparr>stepIndex = 0, tripData = emptyTrip, currentTrips = [],
     messages = [\<lparr>id_msg = 1, type_msg = Bot, content = welcomeMessage, timestamp = now\<rparr>],
     inputMessage = [], isTyping = False, isSubmitting = False,
     hasShownInitialPromptRef = False\<rparr>"

section \<open>The create page: sending an answer\<close>

text \<open>
  \<open>handleSendMessage\<close> runs in two parts. The handler itself returns early on a blank
  input; otherwise it appends the user's message, stores the answer and sets a timer of
  one second. The timer's callback is a closure over the \<open>stepIndex\<close> and \<open>messages\<close> of
  the render in which the handler ran (only the length of \<open>messages\<close> is read), while its
  \<open>setMessages\<close> and \<open>setStepIndex\<close> update the state current when it fires. The timers
  that only move the focus to the input field change no state and are left out.
\<close>

record reply_closure =
  cl_stepIndex :: nat
  cl_messages_length :: nat

definition handleSendMessage :: "nat \<Rightarrow> page_state \<Rightarrow> page_state \<times> reply_closure option" where
  "handleSendMessage now s =
    (if blank (inputMessage s) then (s, None)
     else
       let userMessage = \<lparr>id_msg = length (messages s) + 1, type_msg = User,
                          content = inputMessage s, timestamp = now\<rparr>
       in (s\<lparr>messages := messages s @ [userMessage],
             tripData := (if stepIndex s < length steps
                          then set_key (field (steps ! stepIndex s)) (inputMessage s) (tripData s)
                          else tripData s),
             inputMessage := [],
             isTyping := True\<rparr>,
           Some \<lparr>cl_stepIndex = stepIndex s, cl_messages_length = length (messages s)\<rparr>))"

definition completionMessage :: js_string where
  "completionMessage =
     js ''Got all the details! Would you like to submit this trip or add another one?''"

definition botReply :: "nat \<Rightarrow> reply_closure \<Rightarrow> page_state \<Rightarrow> page_state" where
  "botReply now c s =
    (if cl_stepIndex c < length steps - 1 then
       s\<lparr>isTyping := False,
         messages := messages s @
           [\<lparr>id_msg = cl_messages_length c + 2, type_msg = Bot,
             content = prompt (steps ! (cl_stepIndex c + 1)), timestamp = now\<rparr>],
         stepIndex := stepIndex s + 1\<rparr>
     else
       s\<lparr>isTyping := False,
         messages := messages s @
           [\<lparr>id_msg = cl_messages_length c + 2, type_msg = Bot,
             content = completionMessage, timestamp = now\<rparr>]\<rparr>)"

text \<open>
  An answer and its reply with no other handler in between: the handler at time \<open>now\<close>,
  then, if a timer was set, its callback at time \<open>later\<close>.
\<close>

definition sendAndReply :: "nat \<Rightarrow> nat \<Rightarrow> page_state \<Rightarrow> page_state" where
  "sendAndReply now later s =
    (case handleSendMessage now s of
       (s', None) \<Rightarrow> s'
     | (s', Some c) \<Rightarrow> botReply later c s')"

section \<open>The create page: adding another trip\<close>

definition handleAddAnotherTrip :: "nat \<Rightarrow> page_state \<Rightarrow> page_state" where
  "handleAddAnotherTrip now s =
    s\<lparr>currentTrips := currentTrips s @ [tripData s],
      tripData := emptyTrip,
      stepIndex := 0,
      messages := messages s @
        [\<lparr>id_msg = length (messages s) + 1, type_msg = Bot,
          content = prompt (steps ! 0), timestamp = now\<rparr>]\<rparr>"

text \<open>The callback of the timer that the mount effect sets for the first prompt.\<close>

definition initialPrompt :: "nat \<Rightarrow> page_state \<Rightarrow> page_state" where
  "initialPrompt now s =
    s\<lparr>messages := messages s @
        [\<lparr>id_msg = length (messages s) + 1, type_msg = Bot,
          content = prompt (steps ! 0), timestamp = now\<rparr>]\<rparr>"

section \<open>The create page: submitting the trips\<close>

text \<open>
  The outside world of \<open>handleSubmitAllTrips\<close>. Every awaited promise is taken to settle:
  it is fulfilled with a value or rejected, and \<open>await\<close> throws on a rejection.
  \<open>getSession\<close> yields the value of \<open>session?.user?.accessToken\<close>, \<open>None\<close> when the
  session, the user or the token is missing. An HTTP response carries \<open>data\<close>: either
  nothing (\<open>NoData\<close>), or a body whose property \<open>exists\<close> is missing (\<open>Data None\<close>) or
  has the given truth value.
\<close>

datatype 'a settled = Rejected | Fulfilled 'a

datatype http_method = GET | POST

datatype body = NoBody | EmptyObject | TripsObject "Trip list"

record request =
  req_method :: http_method
  url :: string
  payload :: body
  authorization :: "js_string option"

datatype response_data = NoData | Data "bool option"

record backend =
  getSession :: "js_string option settled"
  axios :: "request \<Rightarrow> response_data settled"

text \<open>The truth value of \<open>checkRes.data?.exists\<close>.\<close>

fun data_exists :: "response_data \<Rightarrow> bool" where
  "data_exists NoData = False"
| "data_exists (Data None) = False"
| "data_exists (Data (Some b)) = b"

definition check_user_exists :: "js_string \<Rightarrow> request" where
  "check_user_exists token =
    \<lparr>req_method = GET, url = ''http://localhost:8000/check_user_exists'', payload = NoBody,
     authorization = Some (js ''Bearer '' @ token)\<rparr>"

definition register_pinecone_user :: "js_string \<Rightarrow> request" where
  "register_pinecone_user token =
    \<lparr>req_method = POST, url = ''http://localhost:8000/register_pinecone_user'',
     payload = EmptyObject, authorization = Some (js ''Bearer '' @ token)\<rparr>"

definition submit_trips :: "Trip list \<Rightarrow> request" where
  "submit_trips allTrips =
    \<lparr>req_method = POST, url = ''http://localhost:8000'', payload = TripsObject allTrips,
     authorization = None\<rparr>"

text \<open>
  The body of the \<open>try\<close> block up to its \<open>setMessages\<close>: the requests sent, in order, and
  whether the block ran to its end (\<open>True\<close>) or threw (\<open>False\<close>).
\<close>

definition submit_try :: "backend \<Rightarrow> Trip list \<Rightarrow> request list \<times> bool" where
  "submit_try be allTrips =
    (case getSession be of
       Rejected \<Rightarrow> ([], False)
     | Fulfilled None \<Rightarrow> ([], False)
     | Fulfilled (Some token) \<Rightarrow>
         if token = [] then ([], False)
         else
           (case axios be (check_user_exists token) of
              Rejected \<Rightarrow> ([check_user_exists token], False)
            | Fulfilled checkRes \<Rightarrow>
                if \<not> data_exists checkRes then
                  (case axios be (register_pinecone_user token) of
                     Rejected \<Rightarrow>
                       ([check_user_exists token, register_pinecone_user token], False)
                   | Fulfilled registered \<Rightarrow>
                       (case axios be (submit_trips allTrips) of
                          Rejected \<Rightarrow>
                            ([check_user_exists token, register_pinecone_user token,
                              submit_trips allTrips], False)
                        | Fulfilled response \<Rightarrow>
                            ([check_user_exists token, register_pinecone_user token,
                              submit_trips allTrips], True)))
                else
                  (case axios be (submit_trips allTrips) of
                     Rejected \<Rightarrow> ([check_user_exists token, submit_trips allTrips], False)
                   | Fulfilled response \<Rightarrow>
                       ([check_user_exists token, submit_trips allTrips], True))))"

text \<open>
  The two messages of the operation. The rocket U+1F680 is the surrogate pair
  D83D DE80, the cross mark is U+274C.
\<close>

definition successMessage :: js_string where
  "successMessage =
     js ''Thanks! Your trip(s) have been submitted successfully '' @ [0xD83D, 0xDE80]"

definition failureMessage :: js_string where
  "failureMessage =
     js ''Sorry, there was an error submitting your trip(s). Please try again later. ''
       @ [0x274C]"

text \<open>
  The handler before its first \<open>await\<close>: \<open>allTrips\<close> is built from the state of the
  render in which it runs, and \<open>isSubmitting\<close> is set.
\<close>

definition submit_begin :: "page_state \<Rightarrow> page_state \<times> Trip list" where
  "submit_begin s = (s\<lparr>isSubmitting := True\<rparr>, currentTrips s @ [tripData s])"

text \<open>
  The handler after its last \<open>await\<close>: the message of the \<open>try\<close> block or of the
  \<open>catch\<close> block, then the \<open>finally\<close> block, on the state current at that time.
\<close>

definition submit_end :: "nat \<Rightarrow> bool \<Rightarrow> page_state \<Rightarrow> page_state" where
  "submit_end now ok s =
    s\<lparr>messages := messages s @
        [\<lparr>id_msg = length (messages s) + 1, type_msg = Bot,
          content = (if ok then successMessage else failureMessage), timestamp = now\<rparr>],
      isSubmitting := False,
      tripData := emptyTrip,
      currentTrips := [],
      stepIndex := 0,
      hasShownInitialPromptRef := False\<rparr>"

text \<open>One run of the operation with no other handler in between: the new state and the
  requests sent.\<close>

definition handleSubmitAllTrips ::
    "nat \<Rightarrow> backend \<Rightarrow> page_state \<Rightarrow> page_state \<times> request list" where
  "handleSubmitAllTrips now be s =
    (let (s1, allTrips) = submit_begin s;
         (sent, ok) = submit_try be allTrips
     in (submit_end now ok s1, sent))"

section \<open>The session gate of the pages\<close>

text \<open>
  \<open>useSession().status\<close> of next-auth is one of three strings. The four pages that call
  \<open>useSession\<close> (the create page, the dashboard, the menu page and the chat page) start
  with the same two tests; the landing page does not use the session.
\<close>

datatype session_status = loading | authenticated | unauthenticated

datatype gated_page = CreatePage | DashboardPage | MenuPage | ChatPage

datatype view = LoadingView | AccessRequiredView | MainContent

fun Page :: "gated_page \<Rightarrow> session_status \<Rightarrow> view" where
  "Page CreatePage status =
    (if status = loading then LoadingView
     else if status = unauthenticated then AccessRequiredView
     else MainContent)"
| "Page DashboardPage status =
    (if status = loading then LoadingView
     else if status = unauthenticated then AccessRequiredView
     else MainContent)"
| "Page MenuPage status =
    (if status = loading then LoadingView
     else if status = unauthenticated then AccessRequiredView
     else MainContent)"
| "Page ChatPage status =
    (if status = loading then LoadingView
     else if status = unauthenticated then AccessRequiredView
     else MainContent)"

section \<open>The create page as a transition system\<close>

text \<open>
  The mounted component with what is pending: the timers of the replies, the timers of
  the first prompt, and the submissions that await the backend (each holds its
  \<open>allTrips\<close>). The events are those the rendered page admits:
  \<^item> the session status changes;
  \<^item> the effect for the first prompt runs under its own condition and sets a timer;
  \<^item> the user edits the input field, which is disabled while \<open>isTyping\<close>;
  \<^item> the form is submitted, which the disabled button and field prevent while
    \<open>isTyping\<close>;
  \<^item> the two buttons are clicked; they are rendered when
    \<open>stepIndex === steps.length - 1 && !isTyping\<close>, and the submit button is disabled
    while \<open>isSubmitting\<close>;
  \<^item> a pending timer fires, a pending submission settles.
  The form and the buttons belong to the main content of the page.
\<close>

record system =
  page :: page_state
  status :: session_status
  replyTimers :: "reply_closure list"
  promptTimers :: nat
  submissions :: "Trip list list"

inductive reachable :: "system \<Rightarrow> bool" where
  mount:
    "reachable \<lparr>page = initialState now, status = st, replyTimers = [],
                promptTimers = 0, submissions = []\<rparr>"
| session:
    "reachable \<sigma> \<Longrightarrow> reachable (\<sigma>\<lparr>status := st\<rparr>)"
| prompt_effect:
    "reachable \<sigma> \<Longrightarrow> status \<sigma> = authenticated
      \<Longrightarrow> \<not> hasShownInitialPromptRef (page \<sigma>)
      \<Longrightarrow> stepIndex (page \<sigma>) = 0 \<Longrightarrow> length (messages (page \<sigma>)) = 1
      \<Longrightarrow> reachable (\<sigma>\<lparr>page := (page \<sigma>)\<lparr>hasShownInitialPromptRef := True\<rparr>,
                       promptTimers := Suc (promptTimers \<sigma>)\<rparr>)"
| prompt_timer:
    "reachable \<sigma> \<Longrightarrow> 0 < promptTimers \<sigma>
      \<Longrightarrow> reachable (\<sigma>\<lparr>page := initialPrompt now (page \<sigma>),
                       promptTimers := promptTimers \<sigma> - 1\<rparr>)"
| edit_input:
    "reachable \<sigma> \<Longrightarrow> Page CreatePage (status \<sigma>) = MainContent
      \<Longrightarrow> \<not> isTyping (page \<sigma>)
      \<Longrightarrow> reachable (\<sigma>\<lparr>page := (page \<sigma>)\<lparr>inputMessage := typed\<rparr>\<rparr>)"
| send:
    "reachable \<sigma> \<Longrightarrow> Page CreatePage (status \<sigma>) = MainContent
      \<Longrightarrow> \<not> isTyping (page \<sigma>)
      \<Longrightarrow> handleSendMessage now (page \<sigma>) = (s', timer)
      \<Longrightarrow> reachable (\<sigma>\<lparr>page := s',
                       replyTimers := replyTimers \<sigma> @ (case timer of None \<Rightarrow> [] | Some c \<Rightarrow> [c])\<rparr>)"
| reply_timer:
    "reachable \<sigma> \<Longrightarrow> c \<in> set (replyTimers \<sigma>)
      \<Longrightarrow> reachable (\<sigma>\<lparr>page := botReply now c (page \<sigma>),
                       replyTimers := remove1 c (replyTimers \<sigma>)\<rparr>)"
| add_another:
    "reachable \<sigma> \<Longrightarrow> Page CreatePage (status \<sigma>) = MainContent
      \<Longrightarrow> stepIndex (page \<sigma>) = length steps - 1 \<Longrightarrow> \<not> isTyping (page \<sigma>)
      \<Longrightarrow> reachable (\<sigma>\<lparr>page := handleAddAnotherTrip now (page \<sigma>)\<rparr>)"
| submit_click:
    "reachable \<sigma> \<Longrightarrow> Page CreatePage (status \<sigma>) = MainContent
      \<Longrightarrow> stepIndex (page \<sigma>) = length steps - 1 \<Longrightarrow> \<not> isTyping (page \<sigma>)
      \<Longrightarrow> \<not> isSubmitting (page \<sigma>)
      \<Longrightarrow> submit_begin (page \<sigma>) = (s', allTrips)
      \<Longrightarrow> reachable (\<sigma>\<lparr>page := s', submissions := submissions \<sigma> @ [allTrips]\<rparr>)"
| submit_settles:
    "reachable \<sigma> \<Longrightarrow> allTrips \<in> set (submissions \<sigma>)
      \<Longrightarrow> submit_try be allTrips = (sent, ok)
      \<Longrightarrow> reachable (\<sigma>\<lparr>page := submit_end now ok (page \<sigma>),
                       submissions := remove1 allTrips (submissions \<sigma>)\<rparr>)"

text \<open>
  What the transition system preserves: at most one reply timer is pending, one is
  pending only while \<open>isTyping\<close>, and a pending timer that will increment the step
  index (its closure holds an index below \<open>steps.length - 1\<close>) finds it below
  \<open>steps.length - 1\<close>.
\<close>

definition step_invariant :: "system \<Rightarrow> bool" where
  "step_invariant \<sigma> \<longleftrightarrow>
     stepIndex (page \<sigma>) \<le> length steps - 1
     \<and> length (replyTimers \<sigma>) \<le> 1
     \<and> (replyTimers \<sigma> \<noteq> [] \<longrightarrow> isTyping (page \<sigma>))
     \<and> (\<forall>c \<in> set (replyTimers \<sigma>).
           cl_stepIndex c < length steps - 1 \<longrightarrow> stepIndex (page \<sigma>) < length steps - 1)"

section \<open>A run of the page with a submission pending\<close>

text \<open>
  \<open>answer\<close> is an answer typed into the field and sent, followed by its reply. The run:
  the page mounts and shows the first prompt; eight answers complete a trip; the user
  clicks "Submit All Trips" and, while the backend has not answered, "Add Another Trip"
  (the button stays enabled); the user answers "Rome", then types "1000" at step 1
  (\<open>race_typed\<close>) and sends it (\<open>race_sent\<close>, with the reply's closure \<open>race_closure\<close>);
  the submission settles; the reply fires (\<open>race_replied\<close>).
\<close>

definition answer :: "nat \<Rightarrow> nat \<Rightarrow> js_string \<Rightarrow> page_state \<Rightarrow> page_state" where
  "answer now later typed s = sendAndReply now later (s\<lparr>inputMessage := typed\<rparr>)"

definition race_start :: page_state where
  "race_start = initialPrompt 500 ((initialState 0)\<lparr>hasShownInitialPromptRef := True\<rparr>)"

definition race_answers :: "(nat \<times> string) list" where
  "race_answers =
     [(1000, ''Paris''), (3000, ''2000''), (5000, ''2025-07-01''), (7000, ''2025-07-10''),
      (9000, ''2''), (11000, ''none''), (13000, ''museums''), (15000, ''no'')]"

definition race_wizard_done :: page_state where
  "race_wizard_done =
     fold (\<lambda>(t, a). answer t (t + 1000) (js a)) race_answers race_start"

definition race_typed :: page_state where
  "race_typed =
     (answer 19000 20000 (js ''Rome'')
        (handleAddAnotherTrip 18000 (fst (submit_begin race_wizard_done))))
     \<lparr>inputMessage := js ''1000''\<rparr>"

definition race_sent :: page_state where
  "race_sent = fst (handleSendMessage 21000 race_typed)"

definition race_closure :: reply_closure where
  "race_closure = \<lparr>cl_stepIndex = 1, cl_messages_length = length (messages race_typed)\<rparr>"

definition race_replied :: page_state where
  "race_replied = botReply 22000 race_closure (submit_end 21500 True race_sent)"

section \<open>Basic facts\<close>

lemma length_steps: "length steps = 8"
  by (simp add: steps_def)

lemma nth_steps_prompt:
  "prompt (steps ! 0) = js ''Where would you like to go?''"
  "prompt (steps ! 1) = js ''What's your budget for this trip?''"
  "prompt (steps ! 2) = js ''When will the trip start? (YYYY-MM-DD)''"
  "prompt (steps ! 3) = js ''When will the trip end? (YYYY-MM-DD)''"
  "prompt (steps ! 4) = js ''How many people are traveling?''"
  "prompt (steps ! 5) = js ''Do you have any accessibility needs?''"
  "prompt (steps ! 6) = js ''What type of activities or experiences interest you?''"
  "prompt (steps ! 7) = js ''Any additional notes or preferences?''"
  by (simp_all add: steps_def)

lemma get_set_key: "get_key k' (set_key k v t) = (if k' = k then v else get_key k' t)"
  by (cases k; cases k') simp_all

lemma success_neq_failure: "successMessage \<noteq> failureMessage"
  by (simp add: successMessage_def failureMessage_def js_def)

lemma handleSendMessage_accepted:
  "\<not> blank (inputMessage s) \<Longrightarrow>
   handleSendMessage now s =
     (s\<lparr>messages := messages s @
           [\<lparr>id_msg = length (messages s) + 1, type_msg = User,
             content = inputMessage s, timestamp = now\<rparr>],
        tripData := (if stepIndex s < length steps
                     then set_key (field (steps ! stepIndex s)) (inputMessage s) (tripData s)
                     else tripData s),
        inputMessage := [],
        isTyping := True\<rparr>,
      Some \<lparr>cl_stepIndex = stepIndex s, cl_messages_length = length (messages s)\<rparr>)"
  by (simp add: handleSendMessage_def Let_def)

text \<open>The requests and the outcome of the \<open>try\<close> block, with the common parts joined.\<close>

lemma submit_try_cases:
  "submit_try be allTrips =
    (case getSession be of
       Rejected \<Rightarrow> ([], False)
     | Fulfilled None \<Rightarrow> ([], False)
     | Fulfilled (Some token) \<Rightarrow>
         if token = [] then ([], False)
         else
           (case axios be (check_user_exists token) of
              Rejected \<Rightarrow> ([check_user_exists token], False)
            | Fulfilled checkRes \<Rightarrow>
                ([check_user_exists token]
                   @ (if data_exists checkRes then [] else [register_pinecone_user token])
                   @ (if \<not> data_exists checkRes
                         \<and> axios be (register_pinecone_user token) = Rejected
                      then [] else [submit_trips allTrips]),
                 (data_exists checkRes \<or> axios be (register_pinecone_user token) \<noteq> Rejected)
                 \<and> axios be (submit_trips allTrips) \<noteq> Rejected)))"
  by (simp add: submit_try_def split: settled.splits option.splits)

lemma handleSubmitAllTrips_eq:
  "handleSubmitAllTrips now be s =
     (submit_end now (snd (submit_try be (currentTrips s @ [tripData s]))) (s\<lparr>isSubmitting := True\<rparr>),
      fst (submit_try be (currentTrips s @ [tripData s])))"
  by (simp add: handleSubmitAllTrips_def submit_begin_def split: prod.splits)

section \<open>The submission flow\<close>

text \<open>
  Claim C1. The submission sends its requests in a fixed order. The first is the GET of
  \<open>http://localhost:8000/check_user_exists\<close> with the bearer token. The POST of an
  empty object to \<open>http://localhost:8000/register_pinecone_user\<close>, with the same token,
  follows exactly when the check was answered and did not report the user as existing.
  The last is the POST of the trips to \<open>http://localhost:8000\<close>. When the check reports
  that the user exists the register call is skipped and the flow has two calls. A
  rejected call ends the flow after it; without a token nothing is sent.
\<close>

theorem submit_flow_order:
  "(getSession be = Rejected \<or> getSession be = Fulfilled None \<or> getSession be = Fulfilled (Some [])
      \<longrightarrow> snd (handleSubmitAllTrips now be s) = [])
   \<and> (\<forall>token. getSession be = Fulfilled (Some token) \<and> token \<noteq> [] \<longrightarrow>
        (axios be
           \<lparr>req_method = GET, url = ''http://localhost:8000/check_user_exists'',
            payload = NoBody, authorization = Some (js ''Bearer '' @ token)\<rparr> = Rejected \<longrightarrow>
         snd (handleSubmitAllTrips now be s) =
           [\<lparr>req_method = GET, url = ''http://localhost:8000/check_user_exists'',
             payload = NoBody, authorization = Some (js ''Bearer '' @ token)\<rparr>])
        \<and> (\<forall>checkRes.
             axios be
               \<lparr>req_method = GET, url = ''http://localhost:8000/check_user_exists'',
                payload = NoBody, authorization = Some (js ''Bearer '' @ token)\<rparr> = Fulfilled checkRes \<longrightarrow>
             (data_exists checkRes \<longrightarrow>
                snd (handleSubmitAllTrips now be s) =
                  [\<lparr>req_method = GET, url = ''http://localhost:8000/check_user_exists'',
                    payload = NoBody, authorization = Some (js ''Bearer '' @ token)\<rparr>,
                   \<lparr>req_method = POST, url = ''http://localhost:8000'',
                    payload = TripsObject (currentTrips s @ [tripData s]), authorization = None\<rparr>])
             \<and> (\<not> data_exists checkRes \<longrightarrow>
                  axios be
                    \<lparr>req_method = POST, url = ''http://localhost:8000/register_pinecone_user'',
                     payload = EmptyObject, authorization = Some (js ''Bearer '' @ token)\<rparr> = Rejected \<longrightarrow>
                  snd (handleSubmitAllTrips now be s) =
                    [\<lparr>req_method = GET, url = ''http://localhost:8000/check_user_exists'',
                      payload = NoBody, authorization = Some (js ''Bearer '' @ token)\<rparr>,
                     \<lparr>req_method = POST, url = ''http://localhost:8000/register_pinecone_user'',
                      payload = EmptyObject, authorization = Some (js ''Bearer '' @ token)\<rparr>])
             \<and> (\<not> data_exists checkRes \<longrightarrow>
                  axios be
                    \<lparr>req_method = POST, url = ''http://localhost:8000/register_pinecone_user'',
                     payload = EmptyObject, authorization = Some (js ''Bearer '' @ token)\<rparr> \<noteq> Rejected \<longrightarrow>
                  snd (handleSubmitAllTrips now be s) =
                    [\<lparr>req_method = GET, url = ''http://localhost:8000/check_user_exists'',
                      payload = NoBody, authorization = Some (js ''Bearer '' @ token)\<rparr>,
                     \<lparr>req_method = POST, url = ''http://localhost:8000/register_pinecone_user'',
                      payload = EmptyObject, authorization = Some (js ''Bearer '' @ token)\<rparr>,
                     \<lparr>req_method = POST, url = ''http://localhost:8000'',
                      payload = TripsObject (currentTrips s @ [tripData s]), authorization = None\<rparr>])))"
  by (simp add: handleSubmitAllTrips_eq submit_try_cases check_user_exists_def
        register_pinecone_user_def submit_trips_def split: settled.splits option.splits)

text \<open>The flow on five backends, with the token "tok" and one empty trip: user known,
  user unknown, registration refused, check refused, no token.\<close>

theorem submit_flow_order_witness:
  "snd (handleSubmitAllTrips 5
          \<lparr>getSession = Fulfilled (Some (js ''tok'')),
           axios = (\<lambda>q. Fulfilled (Data (Some True)))\<rparr> (initialState 0))
     = [\<lparr>req_method = GET, url = ''http://localhost:8000/check_user_exists'',
         payload = NoBody, authorization = Some (js ''Bearer tok'')\<rparr>,
        \<lparr>req_method = POST, url = ''http://localhost:8000'',
         payload = TripsObject ([emptyTrip]), authorization = None\<rparr>]
   \<and> snd (handleSubmitAllTrips 5
          \<lparr>getSession = Fulfilled (Some (js ''tok'')),
           axios = (\<lambda>q. Fulfilled (Data (Some False)))\<rparr> (initialState 0))
     = [\<lparr>req_method = GET, url = ''http://localhost:8000/check_user_exists'',
         payload = NoBody, authorization = Some (js ''Bearer tok'')\<rparr>,
        \<lparr>req_method = POST, url = ''http://localhost:8000/register_pinecone_user'',
         payload = EmptyObject, authorization = Some (js ''Bearer tok'')\<rparr>,
        \<lparr>req_method = POST, url = ''http://localhost:8000'',
         payload = TripsObject ([emptyTrip]), authorization = None\<rparr>]
   \<and> snd (handleSubmitAllTrips 5
          \<lparr>getSession = Fulfilled (Some (js ''tok'')),
           axios = (\<lambda>q. if req_method q = GET then Fulfilled NoData else Rejected)\<rparr>
          (initialState 0))
     = [\<lparr>req_method = GET, url = ''http://localhost:8000/check_user_exists'',
         payload = NoBody, authorization = Some (js ''Bearer tok'')\<rparr>,
        \<lparr>req_method = POST, url = ''http://localhost:8000/register_pinecone_user'',
         payload = EmptyObject, authorization = Some (js ''Bearer tok'')\<rparr>]
   \<and> snd (handleSubmitAllTrips 5
          \<lparr>getSession = Fulfilled (Some (js ''tok'')), axios = (\<lambda>q. Rejected)\<rparr>
          (initialState 0))
     = [\<lparr>req_method = GET, url = ''http://localhost:8000/check_user_exists'',
         payload = NoBody, authorization = Some (js ''Bearer tok'')\<rparr>]
   \<and> snd (handleSubmitAllTrips 5
          \<lparr>getSession = Fulfilled None, axios = (\<lambda>q. Fulfilled (Data (Some True)))\<rparr>
          (initialState 0))
     = []"
  using
    submit_flow_order [of "\<lparr>getSession = Fulfilled (Some (js ''tok'')),
           axios = (\<lambda>q. Fulfilled (Data (Some True)))\<rparr>" 5 "initialState 0"]
    submit_flow_order [of "\<lparr>getSession = Fulfilled (Some (js ''tok'')),
           axios = (\<lambda>q. Fulfilled (Data (Some False)))\<rparr>" 5 "initialState 0"]
    submit_flow_order [of "\<lparr>getSession = Fulfilled (Some (js ''tok'')),
           axios = (\<lambda>q. if req_method q = GET then Fulfilled NoData else Rejected)\<rparr>"
           5 "initialState 0"]
    submit_flow_order [of "\<lparr>getSession = Fulfilled (Some (js ''tok'')),
           axios = (\<lambda>q. Rejected)\<rparr>" 5 "initialState 0"]
    submit_flow_order [of "\<lparr>getSession = Fulfilled None,
           axios = (\<lambda>q. Fulfilled (Data (Some True)))\<rparr>" 5 "initialState 0"]
  by (simp add: initialState_def js_def)

text \<open>
  Claim C2. Every run of the submission appends exactly one message to the transcript,
  from the bot: the success text when the session yields a token and every call made is
  fulfilled, the failure text otherwise. The same holds for the end of the handler on
  whatever transcript is current when it runs. The two texts differ.
\<close>

theorem submit_appends_one_fixed_message:
  "messages (fst (handleSubmitAllTrips now be s)) =
     messages s @
       [\<lparr>id_msg = length (messages s) + 1, type_msg = Bot,
         content =
           (if \<exists>token checkRes.
                 getSession be = Fulfilled (Some token) \<and> token \<noteq> []
                 \<and> axios be (check_user_exists token) = Fulfilled checkRes
                 \<and> (data_exists checkRes
                      \<or> axios be (register_pinecone_user token) \<noteq> Rejected)
                 \<and> axios be (submit_trips (currentTrips s @ [tripData s])) \<noteq> Rejected
            then successMessage else failureMessage),
         timestamp = now\<rparr>]
   \<and> messages (submit_end now ok s') =
       messages s' @
         [\<lparr>id_msg = length (messages s') + 1, type_msg = Bot,
           content = (if ok then successMessage else failureMessage), timestamp = now\<rparr>]
   \<and> successMessage \<noteq> failureMessage"
  by (simp add: handleSubmitAllTrips_eq submit_try_cases submit_end_def success_neq_failure
        split: settled.splits option.splits)

text \<open>
  Claim C6. The trips posted are \<open>currentTrips\<close> followed by \<open>tripData\<close>: no request
  of a run carries any other list of trips, and when the flow reaches its last call that
  call is the POST to the root URL with this list as \<open>trips\<close>. Each element is a
  \<open>Trip\<close>, with its eight collected fields.
\<close>

theorem submitted_payload:
  "(\<forall>q \<in> set (snd (handleSubmitAllTrips now be s)). \<forall>ts.
       payload q = TripsObject ts \<longrightarrow> ts = currentTrips s @ [tripData s])
   \<and> (\<forall>token checkRes.
         getSession be = Fulfilled (Some token) \<and> token \<noteq> []
         \<and> axios be (check_user_exists token) = Fulfilled checkRes
         \<and> (data_exists checkRes \<or> axios be (register_pinecone_user token) \<noteq> Rejected)
         \<longrightarrow> last (snd (handleSubmitAllTrips now be s)) =
               \<lparr>req_method = POST, url = ''http://localhost:8000'',
                payload = TripsObject (currentTrips s @ [tripData s]),
                authorization = None\<rparr>)
   \<and> butlast (currentTrips s @ [tripData s]) = currentTrips s
   \<and> last (currentTrips s @ [tripData s]) = tripData s"
  by (simp add: handleSubmitAllTrips_eq submit_try_cases check_user_exists_def
        register_pinecone_user_def submit_trips_def split: settled.splits option.splits)

text \<open>Two trips, Rome accumulated and Oslo in progress, posted in this order.\<close>

theorem submitted_payload_witness:
  "submit_trips [emptyTrip\<lparr>destination := js ''Rome''\<rparr>, emptyTrip\<lparr>destination := js ''Oslo''\<rparr>]
     \<in> set (snd (handleSubmitAllTrips 5
          \<lparr>getSession = Fulfilled (Some (js ''tok'')),
           axios = (\<lambda>q. Fulfilled (Data (Some True)))\<rparr>
          ((initialState 0)\<lparr>currentTrips := [emptyTrip\<lparr>destination := js ''Rome''\<rparr>],
                            tripData := emptyTrip\<lparr>destination := js ''Oslo''\<rparr>\<rparr>)))
   \<and> last (snd (handleSubmitAllTrips 5
          \<lparr>getSession = Fulfilled (Some (js ''tok'')),
           axios = (\<lambda>q. Fulfilled (Data (Some True)))\<rparr>
          ((initialState 0)\<lparr>currentTrips := [emptyTrip\<lparr>destination := js ''Rome''\<rparr>],
                            tripData := emptyTrip\<lparr>destination := js ''Oslo''\<rparr>\<rparr>)))
     = submit_trips [emptyTrip\<lparr>destination := js ''Rome''\<rparr>, emptyTrip\<lparr>destination := js ''Oslo''\<rparr>]"
proof -
  let ?be = "\<lparr>getSession = Fulfilled (Some (js ''tok'')),
           axios = (\<lambda>q. Fulfilled (Data (Some True)))\<rparr>"
  let ?s = "(initialState 0)\<lparr>currentTrips := [emptyTrip\<lparr>destination := js ''Rome''\<rparr>],
                            tripData := emptyTrip\<lparr>destination := js ''Oslo''\<rparr>\<rparr>"
  have sent: "snd (handleSubmitAllTrips 5 ?be ?s) \<noteq> []"
    by (simp add: handleSubmitAllTrips_eq submit_try_cases js_def)
  have "last (snd (handleSubmitAllTrips 5 ?be ?s)) =
          submit_trips [emptyTrip\<lparr>destination := js ''Rome''\<rparr>, emptyTrip\<lparr>destination := js ''Oslo''\<rparr>]"
    using submitted_payload [of 5 ?be ?s]
    by (simp add: submit_trips_def js_def)
  with sent show ?thesis
    by (metis last_in_set)
qed

text \<open>
  Claim C10. After every run of the submission, fulfilled or not, the trip record has
  eight empty fields, the accumulated list is empty and the step index is 0; the same
  holds for the end of the handler on whatever state is current when it runs.
\<close>

theorem submit_clears_state:
  "tripData (fst (handleSubmitAllTrips now be s)) =
     \<lparr>destination = [], budget = [], startDate = [], endDate = [],
      travelers = [], accessibility = [], interests = [], notes = []\<rparr>
   \<and> currentTrips (fst (handleSubmitAllTrips now be s)) = []
   \<and> stepIndex (fst (handleSubmitAllTrips now be s)) = 0
   \<and> tripData (submit_end now ok s') = emptyTrip
   \<and> currentTrips (submit_end now ok s') = []
   \<and> stepIndex (submit_end now ok s') = 0"
  by (simp add: handleSubmitAllTrips_eq submit_end_def emptyTrip_def)

section \<open>Answers\<close>

text \<open>
  Claim C4. An accepted answer at step index \<open>i\<close> is stored under the field of step
  \<open>i\<close>; every other field of the trip record keeps its value, and the reply does not
  touch the record. The fields of the steps are the eight fields of \<open>Trip\<close>, in order.
\<close>

theorem answer_stored_under_step_field:
  assumes "\<not> blank (inputMessage s)" and "stepIndex s = i" and "i < length steps"
  shows "get_key (field (steps ! i)) (tripData (fst (handleSendMessage now s))) = inputMessage s
         \<and> (\<forall>k. k \<noteq> field (steps ! i) \<longrightarrow>
               get_key k (tripData (fst (handleSendMessage now s))) = get_key k (tripData s))
         \<and> tripData (sendAndReply now later s) = tripData (fst (handleSendMessage now s))
         \<and> map field steps =
             [K_destination, K_budget, K_startDate, K_endDate,
              K_travelers, K_accessibility, K_interests, K_notes]"
  using assms
  by (simp add: sendAndReply_def handleSendMessage_accepted botReply_def get_set_key)
     (simp add: steps_def)

text \<open>The answer "Paris" at index 0 fills the destination and nothing else.\<close>

theorem answer_stored_under_step_field_witness:
  "\<not> blank (inputMessage ((initialState 0)\<lparr>inputMessage := js ''Paris''\<rparr>))
   \<and> stepIndex ((initialState 0)\<lparr>inputMessage := js ''Paris''\<rparr>) < length steps
   \<and> destination (tripData
         (fst (handleSendMessage 10 ((initialState 0)\<lparr>inputMessage := js ''Paris''\<rparr>))))
       = js ''Paris''
   \<and> budget (tripData
         (fst (handleSendMessage 10 ((initialState 0)\<lparr>inputMessage := js ''Paris''\<rparr>))))
       = []
   \<and> notes (tripData
         (fst (handleSendMessage 10 ((initialState 0)\<lparr>inputMessage := js ''Paris''\<rparr>))))
       = []"
proof -
  let ?s = "(initialState 0)\<lparr>inputMessage := js ''Paris''\<rparr>"
  have a: "\<not> blank (inputMessage ?s)"
    by (simp add: blank_def trim_def js_def isWhiteSpace_def)
  have c: "stepIndex ?s = 0"
    by (simp add: initialState_def)
  have l: "(0::nat) < length steps"
    by (simp add: steps_def)
  have f: "field (steps ! 0) = K_destination"
    by (simp add: steps_def)
  have e: "tripData ?s = emptyTrip" "inputMessage ?s = js ''Paris''"
    by (simp_all add: initialState_def)
  note stored = answer_stored_under_step_field [OF a c l, of 10 20, unfolded f e]
  from stored have others:
    "\<And>k. k \<noteq> K_destination \<Longrightarrow>
       get_key k (tripData (fst (handleSendMessage 10 ?s))) = get_key k emptyTrip"
    by blast
  from stored have "destination (tripData (fst (handleSendMessage 10 ?s))) = js ''Paris''"
    by simp
  moreover from others [of K_budget]
  have "budget (tripData (fst (handleSendMessage 10 ?s))) = []"
    by (simp add: emptyTrip_def)
  moreover from others [of K_notes]
  have "notes (tripData (fst (handleSendMessage 10 ?s))) = []"
    by (simp add: emptyTrip_def)
  ultimately show ?thesis using a c l by simp
qed

text \<open>
  Claim C8. A blank input, empty or white space only, changes nothing: the handler
  returns the state as it was and sets no timer.
\<close>

theorem blank_message_is_noop:
  assumes "blank (inputMessage s)"
  shows "handleSendMessage now s = (s, None) \<and> sendAndReply now later s = s"
  using assms by (simp add: sendAndReply_def handleSendMessage_def)

text \<open>Three spaces.\<close>

theorem blank_message_is_noop_witness:
  "blank (inputMessage ((initialState 0)\<lparr>inputMessage := js ''   ''\<rparr>))
   \<and> handleSendMessage 10 ((initialState 0)\<lparr>inputMessage := js ''   ''\<rparr>)
       = ((initialState 0)\<lparr>inputMessage := js ''   ''\<rparr>, None)
   \<and> sendAndReply 10 20 ((initialState 0)\<lparr>inputMessage := js ''   ''\<rparr>)
       = (initialState 0)\<lparr>inputMessage := js ''   ''\<rparr>"
proof -
  have a: "blank (inputMessage ((initialState 0)\<lparr>inputMessage := js ''   ''\<rparr>))"
    by (simp add: blank_def trim_def js_def isWhiteSpace_def)
  from a blank_message_is_noop [OF a, of 10 20] show ?thesis by simp
qed

text \<open>
  Claim C5. Adding another trip appends the current trip record to the accumulated
  list, empties the eight fields of the record, sets the step index to 0 and shows the
  first prompt again.
\<close>

theorem add_another_trip:
  "currentTrips (handleAddAnotherTrip now s) = currentTrips s @ [tripData s]
   \<and> tripData (handleAddAnotherTrip now s) =
       \<lparr>destination = [], budget = [], startDate = [], endDate = [],
        travelers = [], accessibility = [], interests = [], notes = []\<rparr>
   \<and> stepIndex (handleAddAnotherTrip now s) = 0
   \<and> messages (handleAddAnotherTrip now s) =
       messages s @ [\<lparr>id_msg = length (messages s) + 1, type_msg = Bot,
                      content = js ''Where would you like to go?'', timestamp = now\<rparr>]
   \<and> field (steps ! stepIndex (handleAddAnotherTrip now s)) = K_destination"
  by (simp add: handleAddAnotherTrip_def emptyTrip_def nth_steps_prompt) (simp add: steps_def)

section \<open>The session gate\<close>

text \<open>
  Claim C7. Each of the four gated pages shows the access-required view when the
  session is unauthenticated, the loading view while it is loading, and its main content
  only when the session is authenticated.
\<close>

theorem pages_gated_by_session:
  "Page p unauthenticated = AccessRequiredView
   \<and> Page p loading = LoadingView
   \<and> (Page p st = MainContent \<longleftrightarrow> st = authenticated)"
  by (cases p; cases st) simp_all

section \<open>The bound on the step index\<close>

lemma reachable_step_invariant: "reachable \<sigma> \<Longrightarrow> step_invariant \<sigma>"
proof (induction rule: reachable.induct)
  case (mount now st)
  show ?case by (simp add: step_invariant_def initialState_def)
next
  case (session \<sigma> st)
  then show ?case by (simp add: step_invariant_def)
next
  case (prompt_effect \<sigma>)
  then show ?case by (simp add: step_invariant_def)
next
  case (prompt_timer \<sigma> now)
  then show ?case by (simp add: step_invariant_def initialPrompt_def)
next
  case (edit_input \<sigma> typed)
  then show ?case by (simp add: step_invariant_def)
next
  case (send \<sigma> now s' timer)
  from send.IH send.hyps(3) have no_timer: "replyTimers \<sigma> = []"
    by (auto simp: step_invariant_def)
  show ?case
  proof (cases "blank (inputMessage (page \<sigma>))")
    case True
    with send.hyps(4) have "s' = page \<sigma>" "timer = None"
      by (simp_all add: handleSendMessage_def)
    with send.IH no_timer show ?thesis by (simp add: step_invariant_def)
  next
    case False
    with send.hyps(4) send.IH no_timer show ?thesis
      by (auto simp: handleSendMessage_accepted step_invariant_def)
  qed
next
  case (reply_timer \<sigma> c now)
  from reply_timer.IH reply_timer.hyps(2) have only: "replyTimers \<sigma> = [c]"
    by (cases "replyTimers \<sigma>") (auto simp: step_invariant_def)
  with reply_timer.IH show ?case
    by (auto simp: step_invariant_def botReply_def)
next
  case (add_another \<sigma> now)
  then have "replyTimers \<sigma> = []" by (auto simp: step_invariant_def)
  then show ?case by (simp add: step_invariant_def handleAddAnotherTrip_def)
next
  case (submit_click \<sigma> s' allTrips)
  then show ?case by (auto simp: step_invariant_def submit_begin_def)
next
  case (submit_settles \<sigma> allTrips be sent ok now)
  then show ?case by (auto simp: step_invariant_def submit_end_def)
qed

text \<open>
  Claim C9. In every reachable state of the page the step index is at most
  \<open>steps.length - 1\<close>, that is 7; it is 0 when the page mounts.
\<close>

theorem stepIndex_bounded:
  assumes "reachable \<sigma>"
  shows "stepIndex (page \<sigma>) \<le> length steps - 1 \<and> stepIndex (page \<sigma>) \<le> 7
         \<and> stepIndex (initialState now) = 0"
  using reachable_step_invariant [OF assms]
  by (simp add: step_invariant_def length_steps initialState_def)

text \<open>The state after the first answer and its reply is reachable; its index is 1.\<close>

theorem stepIndex_bounded_witness:
  "reachable
     \<lparr>page = botReply 20 \<lparr>cl_stepIndex = 0, cl_messages_length = 1\<rparr>
              (fst (handleSendMessage 10 ((initialState 0)\<lparr>inputMessage := js ''Paris''\<rparr>))),
      status = authenticated, replyTimers = [], promptTimers = 0, submissions = []\<rparr>
   \<and> stepIndex (botReply 20 \<lparr>cl_stepIndex = 0, cl_messages_length = 1\<rparr>
        (fst (handleSendMessage 10 ((initialState 0)\<lparr>inputMessage := js ''Paris''\<rparr>)))) = 1
   \<and> (1::nat) \<le> 7"
proof -
  let ?s = "(initialState 0)\<lparr>inputMessage := js ''Paris''\<rparr>"
  let ?c = "\<lparr>cl_stepIndex = 0, cl_messages_length = 1\<rparr>"
  have nb: "\<not> blank (inputMessage ?s)"
    by (simp add: blank_def trim_def js_def isWhiteSpace_def)
  have r0: "reachable \<lparr>page = initialState 0, status = authenticated, replyTimers = [],
                        promptTimers = 0, submissions = []\<rparr>"
    by (rule reachable.mount)
  have r1: "reachable \<lparr>page = ?s, status = authenticated, replyTimers = [],
                        promptTimers = 0, submissions = []\<rparr>"
    using reachable.edit_input [OF r0, of "js ''Paris''"] by (simp add: initialState_def)
  have h: "handleSendMessage 10
              (page \<lparr>page = ?s, status = authenticated, replyTimers = [],
                     promptTimers = 0, submissions = []\<rparr>)
            = (fst (handleSendMessage 10 ?s), Some ?c)"
    using nb by (simp add: handleSendMessage_accepted initialState_def)
  have r2: "reachable \<lparr>page = fst (handleSendMessage 10 ?s), status = authenticated,
                        replyTimers = [?c], promptTimers = 0, submissions = []\<rparr>"
    using reachable.send [OF r1 _ _ h] by (simp add: initialState_def)
  have r3: "reachable \<lparr>page = botReply 20 ?c (fst (handleSendMessage 10 ?s)),
                        status = authenticated, replyTimers = [], promptTimers = 0,
                        submissions = []\<rparr>"
    using reachable.reply_timer [OF r2, of ?c 20] by simp
  have v: "stepIndex (botReply 20 ?c (fst (handleSendMessage 10 ?s))) = 1"
    using nb by (simp add: handleSendMessage_accepted botReply_def initialState_def steps_def)
  from r3 v stepIndex_bounded [OF r3] show ?thesis by simp
qed

section \<open>The prompt sequence\<close>

text \<open>
  An answer and its reply with no other handler in between: below index 7 the prompt of
  the next step is appended and the index moves on by one, whatever the answer says; at
  index 7 the completion message is appended and the index stays.
\<close>

lemma answer_then_reply:
  assumes "\<not> blank (inputMessage s)" and "stepIndex s = i"
  shows "(i < 7 \<longrightarrow>
            stepIndex (sendAndReply now later s) = i + 1
            \<and> messages (sendAndReply now later s) =
                messages s @
                  [\<lparr>id_msg = length (messages s) + 1, type_msg = User,
                    content = inputMessage s, timestamp = now\<rparr>,
                   \<lparr>id_msg = length (messages s) + 2, type_msg = Bot,
                    content = prompt (steps ! (i + 1)), timestamp = later\<rparr>])
         \<and> (i = 7 \<longrightarrow>
            stepIndex (sendAndReply now later s) = 7
            \<and> messages (sendAndReply now later s) =
                messages s @
                  [\<lparr>id_msg = length (messages s) + 1, type_msg = User,
                    content = inputMessage s, timestamp = now\<rparr>,
                   \<lparr>id_msg = length (messages s) + 2, type_msg = Bot,
                    content = completionMessage, timestamp = later\<rparr>])"
  using assms
  by (simp add: sendAndReply_def handleSendMessage_accepted botReply_def length_steps)

subsection \<open>A reply after a settled submission\<close>

lemma answer_accepted:
  assumes "\<not> blank typed"
  shows "isTyping (answer now later typed s) = False"
    and "stepIndex (answer now later typed s) =
           (if stepIndex s < 7 then stepIndex s + 1 else stepIndex s)"
    and "isSubmitting (answer now later typed s) = isSubmitting s"
  using assms
  by (simp_all add: answer_def sendAndReply_def handleSendMessage_accepted botReply_def
        length_steps)

lemma idle_no_timers:
  "reachable \<sigma> \<Longrightarrow> \<not> isTyping (page \<sigma>) \<Longrightarrow> replyTimers \<sigma> = []"
  using reachable_step_invariant [of \<sigma>] by (auto simp: step_invariant_def)

lemma reachable_answer:
  assumes r: "reachable \<sigma>" and st: "status \<sigma> = authenticated"
    and idle: "\<not> isTyping (page \<sigma>)" and nb: "\<not> blank typed"
  shows "reachable (\<sigma>\<lparr>page := answer now later typed (page \<sigma>)\<rparr>)"
proof -
  let ?s = "(page \<sigma>)\<lparr>inputMessage := typed\<rparr>"
  let ?c = "\<lparr>cl_stepIndex = stepIndex ?s, cl_messages_length = length (messages ?s)\<rparr>"
  have none: "replyTimers \<sigma> = []"
    by (rule idle_no_timers [OF r idle])
  have r1: "reachable (\<sigma>\<lparr>page := ?s\<rparr>)"
    using reachable.edit_input [OF r, of typed] st idle by simp
  have h: "handleSendMessage now (page (\<sigma>\<lparr>page := ?s\<rparr>))
             = (fst (handleSendMessage now ?s), Some ?c)"
    using nb by (simp add: handleSendMessage_accepted)
  have r2: "reachable (\<sigma>\<lparr>page := fst (handleSendMessage now ?s), replyTimers := [?c]\<rparr>)"
    using reachable.send [OF r1 _ _ h] st idle none by simp
  have r3: "reachable (\<sigma>\<lparr>page := botReply later ?c (fst (handleSendMessage now ?s)),
                         replyTimers := []\<rparr>)"
    using reachable.reply_timer [OF r2, of ?c later] by simp
  have "\<sigma>\<lparr>page := botReply later ?c (fst (handleSendMessage now ?s)), replyTimers := []\<rparr>
          = \<sigma>\<lparr>page := answer now later typed (page \<sigma>)\<rparr>"
    using nb none by (simp add: answer_def sendAndReply_def handleSendMessage_accepted)
  with r3 show ?thesis by simp
qed


lemma fold_answers:
  assumes "\<forall>(t, a) \<in> set as. \<not> blank (js a)"
  shows "stepIndex s \<le> 7 \<Longrightarrow>
           stepIndex (fold (\<lambda>(t, a). answer t (t + 1000) (js a)) as s)
             = min 7 (stepIndex s + length as)"
    and "isSubmitting (fold (\<lambda>(t, a). answer t (t + 1000) (js a)) as s) = isSubmitting s"
    and "\<not> isTyping s \<Longrightarrow>
           \<not> isTyping (fold (\<lambda>(t, a). answer t (t + 1000) (js a)) as s)"
  using assms
  by (induction as arbitrary: s) (auto simp: answer_accepted split: prod.splits)

lemma reachable_answers:
  assumes "\<forall>(t, a) \<in> set as. \<not> blank (js a)"
    and "reachable \<sigma>" and "status \<sigma> = authenticated" and "\<not> isTyping (page \<sigma>)"
  shows "reachable (\<sigma>\<lparr>page := fold (\<lambda>(t, a). answer t (t + 1000) (js a)) as (page \<sigma>)\<rparr>)"
  using assms
proof (induction as arbitrary: \<sigma>)
  case Nil
  then show ?case by simp
next
  case (Cons x as)
  obtain t a where x: "x = (t, a)" by (cases x)
  with Cons.prems have nb: "\<not> blank (js a)" by simp
  let ?\<sigma> = "\<sigma>\<lparr>page := answer t (t + 1000) (js a) (page \<sigma>)\<rparr>"
  have r: "reachable ?\<sigma>"
    by (rule reachable_answer [OF Cons.prems(2,3,4) nb])
  have "reachable (?\<sigma>\<lparr>page := fold (\<lambda>(t, a). answer t (t + 1000) (js a)) as (page ?\<sigma>)\<rparr>)"
    using Cons.prems(1,3) by (intro Cons.IH [OF _ r]) (simp_all add: answer_accepted nb)
  then show ?case by (simp add: x)
qed

lemma race_answers_nonblank: "\<forall>(t, a) \<in> set race_answers. \<not> blank (js a)"
  by (simp add: race_answers_def blank_def trim_def js_def isWhiteSpace_def)

lemma race_typed_nonblank: "\<not> blank (js ''Rome'')" "\<not> blank (js ''1000'')"
  by (simp_all add: blank_def trim_def js_def isWhiteSpace_def)

lemma race_wizard_done_facts:
  "stepIndex race_wizard_done = 7" "\<not> isTyping race_wizard_done"
  "\<not> isSubmitting race_wizard_done"
  unfolding race_wizard_done_def
  by (simp_all add: fold_answers [OF race_answers_nonblank] race_start_def initialPrompt_def
        initialState_def) (simp add: race_answers_def)

lemma race_typed_facts:
  "stepIndex race_typed = 1" "\<not> isTyping race_typed" "inputMessage race_typed = js ''1000''"
  by (simp_all add: race_typed_def answer_accepted race_typed_nonblank
        handleAddAnotherTrip_def submit_begin_def race_wizard_done_facts)

lemma race_send:
  "handleSendMessage 21000 race_typed = (race_sent, Some race_closure)"
  by (simp add: race_sent_def race_closure_def handleSendMessage_accepted race_typed_facts
        race_typed_nonblank)

lemma reachable_race_typed:
  "reachable \<lparr>page = race_typed, status = authenticated, replyTimers = [], promptTimers = 0,
     submissions = [currentTrips race_wizard_done @ [tripData race_wizard_done]]\<rparr>"
proof -
  let ?trips = "currentTrips race_wizard_done @ [tripData race_wizard_done]"
  have r0: "reachable \<lparr>page = initialState 0, status = authenticated, replyTimers = [],
                        promptTimers = 0, submissions = []\<rparr>"
    by (rule reachable.mount)
  have r1: "reachable \<lparr>page = (initialState 0)\<lparr>hasShownInitialPromptRef := True\<rparr>,
                        status = authenticated, replyTimers = [],
                        promptTimers = Suc 0, submissions = []\<rparr>"
    using reachable.prompt_effect [OF r0] by (simp add: initialState_def)
  have r2: "reachable \<lparr>page = race_start, status = authenticated, replyTimers = [],
                        promptTimers = 0, submissions = []\<rparr>"
    using reachable.prompt_timer [OF r1, of 500] by (simp add: race_start_def)
  have r3: "reachable \<lparr>page = race_wizard_done, status = authenticated, replyTimers = [],
                        promptTimers = 0, submissions = []\<rparr>"
    using reachable_answers [OF race_answers_nonblank r2]
    by (simp add: race_wizard_done_def race_start_def initialPrompt_def initialState_def)
  have r4: "reachable \<lparr>page = fst (submit_begin race_wizard_done), status = authenticated,
                        replyTimers = [], promptTimers = 0, submissions = [?trips]\<rparr>"
    using reachable.submit_click [OF r3, of "fst (submit_begin race_wizard_done)" ?trips]
    by (simp add: race_wizard_done_facts length_steps submit_begin_def)
  have r5: "reachable \<lparr>page = handleAddAnotherTrip 18000 (fst (submit_begin race_wizard_done)),
                        status = authenticated,
                        replyTimers = [], promptTimers = 0, submissions = [?trips]\<rparr>"
    using reachable.add_another [OF r4, of 18000]
    by (simp add: race_wizard_done_facts length_steps submit_begin_def)
  have r6: "reachable \<lparr>page = answer 19000 20000 (js ''Rome'')
                          (handleAddAnotherTrip 18000 (fst (submit_begin race_wizard_done))),
                        status = authenticated,
                        replyTimers = [], promptTimers = 0, submissions = [?trips]\<rparr>"
    using reachable_answer [OF r5 _ _ race_typed_nonblank(1), of 19000 20000]
    by (simp add: race_wizard_done_facts handleAddAnotherTrip_def submit_begin_def)
  show ?thesis
    using reachable.edit_input [OF r6, of "js ''1000''"]
    by (simp add: race_typed_def answer_accepted race_typed_nonblank)
qed

text \<open>
  Claim C3. The chat is a fixed sequence of prompts: after an accepted answer at step
  index \<open>i < 7\<close> the prompt of step \<open>i + 1\<close> is shown and the step index becomes
  \<open>i + 1\<close>. The page breaks this on the run above, which is a run of the page: "Add
  Another Trip" is not disabled while a submission is pending, as the submit button is,
  and the reset at the end of the submission falls on the trip the user has started
  since. The answer "1000" is accepted at step index 1 and stored as the budget. The
  submission settles before the reply and resets the index, the trip record and the
  list. The reply, whose closure still holds index 1, then asks for the start date while
  the index is 1 and not 2, so that the next answer goes to the budget again.
\<close>

theorem reply_after_settled_submission:
  "reachable \<lparr>page = race_typed, status = authenticated, replyTimers = [], promptTimers = 0,
     submissions = [currentTrips race_wizard_done @ [tripData race_wizard_done]]\<rparr>
   \<and> \<not> blank (inputMessage race_typed) \<and> stepIndex race_typed = 1
   \<and> handleSendMessage 21000 race_typed = (race_sent, Some race_closure)
   \<and> budget (tripData race_sent) = js ''1000''
   \<and> reachable \<lparr>page = race_replied, status = authenticated, replyTimers = [],
        promptTimers = 0, submissions = []\<rparr>
   \<and> content (last (messages race_replied)) = prompt (steps ! 2)
   \<and> content (last (messages race_replied)) = js ''When will the trip start? (YYYY-MM-DD)''
   \<and> stepIndex race_replied = 1
   \<and> stepIndex race_replied \<noteq> 1 + 1
   \<and> field (steps ! stepIndex race_replied) = K_budget
   \<and> tripData race_replied = emptyTrip
   \<and> currentTrips race_replied = []"
proof -
  let ?trips = "currentTrips race_wizard_done @ [tripData race_wizard_done]"
  let ?be = "\<lparr>getSession = Fulfilled (Some (js ''tok'')),
              axios = (\<lambda>q. Fulfilled (Data (Some True)))\<rparr>"
  note r7 = reachable_race_typed
  have h: "handleSendMessage 21000
             (page \<lparr>page = race_typed, status = authenticated, replyTimers = [],
                    promptTimers = 0, submissions = [?trips]\<rparr>)
           = (race_sent, Some race_closure)"
    by (simp add: race_send)
  have r8: "reachable \<lparr>page = race_sent, status = authenticated, replyTimers = [race_closure],
                        promptTimers = 0, submissions = [?trips]\<rparr>"
    using reachable.send [OF r7 _ _ h] by (simp add: race_typed_facts)
  have ok: "submit_try ?be ?trips = (fst (submit_try ?be ?trips), True)"
    by (simp add: submit_try_cases js_def)
  have r9: "reachable \<lparr>page = submit_end 21500 True race_sent, status = authenticated,
                        replyTimers = [race_closure], promptTimers = 0, submissions = []\<rparr>"
    using reachable.submit_settles [OF r8 _ ok, of 21500] by simp
  have r10: "reachable \<lparr>page = race_replied, status = authenticated, replyTimers = [],
                        promptTimers = 0, submissions = []\<rparr>"
    using reachable.reply_timer [OF r9, of race_closure 22000] by (simp add: race_replied_def)
  have stored: "budget (tripData race_sent) = js ''1000''"
    by (simp add: race_sent_def handleSendMessage_accepted race_typed_facts
          race_typed_nonblank length_steps)
       (simp add: steps_def)
  have idx: "stepIndex race_replied = 1"
    by (simp add: race_replied_def botReply_def submit_end_def race_closure_def length_steps)
  have shown: "content (last (messages race_replied)) = prompt (steps ! 2)"
    by (simp add: race_replied_def botReply_def race_closure_def length_steps numeral_2_eq_2)
  have wiped: "tripData race_replied = emptyTrip" "currentTrips race_replied = []"
    by (simp_all add: race_replied_def botReply_def submit_end_def)
  have key: "field (steps ! 1) = K_budget"
    by (simp add: steps_def)
  from r7 r10 idx shown race_send stored wiped key show ?thesis
    by (simp add: race_typed_facts race_typed_nonblank nth_steps_prompt)
qed

end
